theory Spec2Isabelle
  imports Main
begin

section \<open>dns\_compare.py: the data the script works on\<close>

text \<open>
  The script compares the records of a zone file with the answers of one name server.
  It is a single module-level program (Python 2): the option check, the zone load, one
  loop over \<^verbatim>\<open>z.iterate_rdatas()\<close> and a summary. The library (dnspython) is
  not part of the repository; what the script sees of it is modelled as data:
  \<^item> an rdata object carries its type and class (the 16-bit numbers of the DNS), the
    canonical form that dnspython's \<^verbatim>\<open>==\<close> compares, and the presentation text
    that \<^verbatim>\<open>print\<close> shows; an rdata object has no TTL (the TTL belongs to the
    rdataset);
  \<^item> \<^verbatim>\<open>r.query\<close> either returns an answer (the TTL of its rrset and the rdatas
    that iterating the answer yields) or raises a subclass of \<^verbatim>\<open>DNSException\<close>;
  \<^item> the zone is the sequence of triples that \<^verbatim>\<open>iterate_rdatas\<close> yields.
\<close>

definition SOA :: nat where
  "SOA = 6"

definition NS :: nat where
  "NS = 2"

record rdata =
  rdtype :: nat
  rdclass :: nat
  canon :: string
  to_text :: string

text \<open>\<^verbatim>\<open>rd == rdata\<close>: class, type and the type's own comparison of the payload.\<close>

definition rdata_eq :: "rdata \<Rightarrow> rdata \<Rightarrow> bool" where
  "rdata_eq a b = (rdclass a = rdclass b \<and> rdtype a = rdtype b \<and> canon a = canon b)"

datatype DNSException = Timeout | NXDOMAIN | NoAnswer | NoNameservers | FormError

record answer =
  rrset_ttl :: nat
  rrset :: "rdata list"

type_synonym zone_rdatas = "(string \<times> nat \<times> rdata) list"

text \<open>The values the variable \<^verbatim>\<open>result\<close> takes: \<^verbatim>\<open>''\<close>, an rdata, an exception class.\<close>

datatype result_value = Str string | Rdata rdata | Class DNSException

record options =
  zone :: "string option"
  zonefile :: "string option"
  nameserver :: "string option"
  verbose :: bool
  compare_soa :: bool
  compare_ns :: bool

section \<open>Standard output\<close>

datatype event = Write string | Flush

definition newline :: char where
  "newline = CHR 0x0A"

definition apostrophe :: char where
  "apostrophe = CHR 0x27"

fun join_items :: "string list \<Rightarrow> string" where
  "join_items [] = []"
| "join_items [s] = s"
| "join_items (s # t # rest) = s @ '' '' @ join_items (t # rest)"

text \<open>A complete \<^verbatim>\<open>print a, b\<close> statement: the items separated by a blank, then a newline.\<close>

definition py_print :: "string list \<Rightarrow> event" where
  "py_print items = Write (join_items items @ [newline])"

fun str_nat :: "nat \<Rightarrow> string" where
  "str_nat n =
     (if n < 10 then [''0123456789'' ! n]
      else str_nat (n div 10) @ [''0123456789'' ! (n mod 10)])"

declare str_nat.simps [simp del]

text \<open>\<^verbatim>\<open>'%s' % opts.nameserver\<close>: an unset option is the text \<^verbatim>\<open>None\<close>.\<close>

definition str_opt :: "string option \<Rightarrow> string" where
  "str_opt v = (case v of None \<Rightarrow> ''None'' | Some s \<Rightarrow> s)"

section \<open>The comparison loop (lines 74 to 114)\<close>

text \<open>
  The module-level variables the loop changes. \<^verbatim>\<open>rd\<close> is the loop variable of
  \<^verbatim>\<open>for rd in ans\<close>; it is a global name that stays bound after the loop and
  that no statement binds before the first answer is iterated: \<open>None\<close> is "not bound".
  \<open>sent\<close> lists the queries issued so far (name, type, class), the network effect of
  \<^verbatim>\<open>r.query\<close>.
\<close>

record state =
  matches :: nat
  mismatches :: nat
  rd_var :: "rdata option"
  out :: "event list"
  sent :: "(string \<times> nat \<times> nat) list"

datatype uncaught = NameError string | IOError | ZoneError

text \<open>Lines 86 to 89: the body runs once per rdata of the answer, in order.\<close>

fun answer_loop ::
  "rdata \<Rightarrow> rdata list \<Rightarrow> bool \<times> result_value \<times> rdata option \<Rightarrow>
   bool \<times> result_value \<times> rdata option" where
  "answer_loop rdata [] s = s"
| "answer_loop rdata (rd # rest) (match, result, bound) =
     answer_loop rdata rest
       (if rdata_eq rd rdata then True else match, Rdata rd, Some rd)"

text \<open>Lines 82 to 92: \<^verbatim>\<open>match\<close>, \<^verbatim>\<open>result\<close> and the binding of \<^verbatim>\<open>rd\<close> after the try statement.\<close>

definition try_query ::
  "rdata \<Rightarrow> DNSException + answer \<Rightarrow> rdata option \<Rightarrow> bool \<times> result_value \<times> rdata option" where
  "try_query rdata q bound =
     (case q of
        Inr ans \<Rightarrow> answer_loop rdata (rrset ans) (False, Str '''', bound)
      | Inl e \<Rightarrow> (False, Class e, bound))"

text \<open>
  Lines 94 to 103. The last statement is \<^verbatim>\<open>print "Got     : ", rd\<close>: the first
  item is written, then the name \<^verbatim>\<open>rd\<close> is looked up, which raises NameError when
  it is not bound.
\<close>

definition query_line :: "options \<Rightarrow> string \<Rightarrow> rdata \<Rightarrow> bool \<Rightarrow> string" where
  "query_line opts name rdata match =
     (if match then ''[Match]'' else ''[MIS-MATCH]'') @ '' querying '' @ str_opt (nameserver opts)
       @ '': name='' @ [apostrophe] @ name @ [apostrophe]
       @ '' type='' @ [apostrophe] @ str_nat (rdtype rdata) @ [apostrophe]
       @ '' class='' @ [apostrophe] @ str_nat (rdclass rdata) @ [apostrophe] @ '' ...''"

definition verbose_block ::
  "options \<Rightarrow> string \<Rightarrow> rdata \<Rightarrow> bool \<Rightarrow> state \<Rightarrow> (uncaught \<times> state) + state" where
  "verbose_block opts name rdata match st =
     (if verbose opts then
        (let st1 = st\<lparr>out := out st @
                     [py_print [''----''],
                      py_print [query_line opts name rdata match],
                      py_print [''Expected: '', to_text rdata]]\<rparr>
         in case rd_var st1 of
              None \<Rightarrow> Inl (NameError ''rd'', st1\<lparr>out := out st1 @ [Write ''Got     : '']\<rparr>)
            | Some rd \<Rightarrow> Inr (st1\<lparr>out := out st1 @ [py_print [''Got     : '', to_text rd]]\<rparr>))
      else Inr st)"

text \<open>Lines 105 to 114.\<close>

definition count_record :: "options \<Rightarrow> bool \<Rightarrow> state \<Rightarrow> state" where
  "count_record opts match st =
     (if match then
        (let st1 = (if verbose opts = False then st\<lparr>out := out st @ [Write ''.'', Flush]\<rparr> else st)
         in st1\<lparr>matches := matches st1 + 1\<rparr>)
      else
        (let st1 = (if verbose opts = False then st\<lparr>out := out st @ [Write ''X'', Flush]\<rparr> else st)
         in st1\<lparr>mismatches := mismatches st1 + 1\<rparr>))"

text \<open>Lines 82 to 114: what the loop body does with a record that is not skipped.\<close>

definition compare_record ::
  "options \<Rightarrow> (string \<Rightarrow> nat \<Rightarrow> nat \<Rightarrow> DNSException + answer) \<Rightarrow> state \<Rightarrow>
   string \<Rightarrow> rdata \<Rightarrow> (uncaught \<times> state) + state" where
  "compare_record opts r st name rdata =
     (case try_query rdata (r name (rdtype rdata) (rdclass rdata)) (rd_var st) of
        (match, result, bound) \<Rightarrow>
          (case verbose_block opts name rdata match
                  (st\<lparr>rd_var := bound, sent := sent st @ [(name, rdtype rdata, rdclass rdata)]\<rparr>) of
             Inl crash \<Rightarrow> Inl crash
           | Inr st1 \<Rightarrow> Inr (count_record opts match st1)))"

text \<open>Lines 76 to 114: one iteration; \<^verbatim>\<open>continue\<close> leaves every variable as it was.\<close>

definition loop_body ::
  "options \<Rightarrow> (string \<Rightarrow> nat \<Rightarrow> nat \<Rightarrow> DNSException + answer) \<Rightarrow> state \<Rightarrow>
   string \<times> nat \<times> rdata \<Rightarrow> (uncaught \<times> state) + state" where
  "loop_body opts r st rec =
     (case rec of (name, ttl, rdata) \<Rightarrow>
        if rdtype rdata = SOA \<and> compare_soa opts = False then Inr st
        else if rdtype rdata = NS \<and> compare_ns opts = False then Inr st
        else compare_record opts r st name rdata)"

fun run_loop ::
  "options \<Rightarrow> (string \<Rightarrow> nat \<Rightarrow> nat \<Rightarrow> DNSException + answer) \<Rightarrow> state \<Rightarrow>
   zone_rdatas \<Rightarrow> (uncaught \<times> state) + state" where
  "run_loop opts r st [] = Inr st"
| "run_loop opts r st (rec # rest) =
     (case loop_body opts r st rec of
        Inl crash \<Rightarrow> Inl crash
      | Inr st1 \<Rightarrow> run_loop opts r st1 rest)"

section \<open>The program\<close>

text \<open>
  What the run depends on outside the script: whether \<^verbatim>\<open>import dns.resolver\<close>
  succeeds, what \<^verbatim>\<open>dns.zone.from_file\<close> returns or raises for a file and an
  origin, and what the server at an address answers to a query. \<open>opts\<close> is the value
  that \<^verbatim>\<open>parser.parse_args()\<close> returned.
\<close>

record env =
  dnspython_installed :: bool
  from_file :: "string \<Rightarrow> string \<Rightarrow> uncaught + zone_rdatas"
  query :: "string \<Rightarrow> string \<Rightarrow> nat \<Rightarrow> nat \<Rightarrow> DNSException + answer"

text \<open>
  What a run leaves behind: the writes of the script's own statements to standard
  output, the uncaught exception (if any) whose traceback the interpreter writes to
  standard error, the exit code (the argument of \<^verbatim>\<open>sys.exit\<close>, 1 after an uncaught
  exception, 0 at the end of the script) and the queries that were sent. The script has
  no statement that writes to standard error.
\<close>

record run =
  stdout :: "event list"
  stderr :: "uncaught list"
  exit_code :: int
  queries :: "(string \<times> nat \<times> nat) list"

text \<open>The status the parent process reads: the exit code modulo 256.\<close>

definition exit_status :: "run \<Rightarrow> nat" where
  "exit_status res = nat (exit_code res mod 256)"

definition init_state :: state where
  "init_state = \<lparr>matches = 0, mismatches = 0, rd_var = None, out = [], sent = []\<rparr>"

definition usage_error :: string where
  "usage_error = ''Error: required arguments: --zone, --file, --server''"

definition hint :: string where
  "hint = '' (re-run with --verbose to see details of the mis-matches )''"

text \<open>Lines 115 to 122.\<close>

definition summary :: "options \<Rightarrow> nat \<Rightarrow> nat \<Rightarrow> event list" where
  "summary opts m n =
     [py_print [''done''],
      py_print [newline # ''Results:''],
      py_print [''Matches:     '', str_nat m],
      py_print [''Mis-matches: '', str_nat n]]
     @ (if verbose opts = False \<and> n > 0 then [py_print [hint]] else [])"

definition main :: "env \<Rightarrow> options \<Rightarrow> run" where
  "main e opts =
     (if \<not> dnspython_installed e then
        \<lparr>stdout = [py_print [''Please install dnspython:''],
                   py_print [''$ sudo easy_install dnspython'']],
         stderr = [], exit_code = - 1, queries = []\<rparr>
      else
        (case (zone opts, zonefile opts, nameserver opts) of
           (Some origin, Some file, Some server) \<Rightarrow>
             (case from_file e file origin of
                Inl exn \<Rightarrow> \<lparr>stdout = [], stderr = [exn], exit_code = 1, queries = []\<rparr>
              | Inr z \<Rightarrow>
                  (case run_loop opts (query e server) init_state z of
                     Inl (exn, st) \<Rightarrow>
                       \<lparr>stdout = out st, stderr = [exn], exit_code = 1, queries = sent st\<rparr>
                   | Inr st \<Rightarrow>
                       \<lparr>stdout = out st @ summary opts (matches st) (mismatches st),
                        stderr = [], exit_code = 0, queries = sent st\<rparr>))
         | _ \<Rightarrow>
             \<lparr>stdout = [py_print [usage_error]], stderr = [], exit_code = - 1, queries = []\<rparr>))"

section \<open>The specification's words\<close>

text \<open>
  The filter policy and the equality rule as the specification words them, to state
  what the loop does record by record.
\<close>

definition spec_skipped :: "options \<Rightarrow> rdata \<Rightarrow> bool" where
  "spec_skipped opts rdata =
     ((rdtype rdata = SOA \<and> \<not> compare_soa opts) \<or> (rdtype rdata = NS \<and> \<not> compare_ns opts))"

definition spec_equal :: "rdata \<Rightarrow> rdata \<Rightarrow> bool" where
  "spec_equal a b = (rdtype a = rdtype b \<and> rdclass a = rdclass b \<and> canon a = canon b)"

definition spec_matched ::
  "(string \<Rightarrow> nat \<Rightarrow> nat \<Rightarrow> DNSException + answer) \<Rightarrow> string \<times> nat \<times> rdata \<Rightarrow> bool" where
  "spec_matched r rec =
     (case rec of (name, ttl, rdata) \<Rightarrow>
        (case r name (rdtype rdata) (rdclass rdata) of
           Inl e \<Rightarrow> False
         | Inr ans \<Rightarrow> (\<exists>rd \<in> set (rrset ans). spec_equal rd rdata)))"

definition query_of :: "string \<times> nat \<times> rdata \<Rightarrow> string \<times> nat \<times> nat" where
  "query_of rec = (case rec of (name, ttl, rdata) \<Rightarrow> (name, rdtype rdata, rdclass rdata))"

definition spec_compared :: "options \<Rightarrow> zone_rdatas \<Rightarrow> zone_rdatas" where
  "spec_compared opts z = filter (\<lambda>rec. \<not> spec_skipped opts (snd (snd rec))) z"

definition spec_progress ::
  "(string \<Rightarrow> nat \<Rightarrow> nat \<Rightarrow> DNSException + answer) \<Rightarrow> string \<times> nat \<times> rdata \<Rightarrow> event list" where
  "spec_progress r rec = [Write (if spec_matched r rec then ''.'' else ''X''), Flush]"

definition spec_block :: "options \<Rightarrow> string \<Rightarrow> rdata \<Rightarrow> bool \<Rightarrow> string \<Rightarrow> event list" where
  "spec_block opts name rdata match actual =
     [py_print [''----''],
      py_print [query_line opts name rdata match],
      py_print [''Expected: '', to_text rdata],
      py_print [''Got     : '', actual]]"

definition spec_answered_by ::
  "options \<Rightarrow> (string \<Rightarrow> nat \<Rightarrow> nat \<Rightarrow> DNSException + answer) \<Rightarrow> rdata \<Rightarrow>
   string \<times> nat \<times> rdata \<Rightarrow> bool" where
  "spec_answered_by opts r x rec =
     (case rec of (name, ttl, rdata) \<Rightarrow>
        \<not> spec_skipped opts rdata \<and>
        (case r name (rdtype rdata) (rdclass rdata) of
           Inl e \<Rightarrow> False
         | Inr ans \<Rightarrow> rrset ans \<noteq> [] \<and> x = last (rrset ans)))"

section \<open>Example runs\<close>

text \<open>
  A zone of three records (one NS, two A) and three servers: one that answers the
  first A record as the zone has it and knows no other name, one that answers that
  record with a second address after the expected one, and one that never answers.
\<close>

definition ex_ns :: rdata where
  "ex_ns = \<lparr>rdtype = 2, rdclass = 1, canon = ''ns1.example.com.'', to_text = ''ns1.example.com.''\<rparr>"

definition ex_a1 :: rdata where
  "ex_a1 = \<lparr>rdtype = 1, rdclass = 1, canon = ''10.0.0.1'', to_text = ''10.0.0.1''\<rparr>"

definition ex_a2 :: rdata where
  "ex_a2 = \<lparr>rdtype = 1, rdclass = 1, canon = ''10.0.0.2'', to_text = ''10.0.0.2''\<rparr>"

definition ex_zone :: zone_rdatas where
  "ex_zone =
     [(''example.com.'', 86400, ex_ns),
      (''www.example.com.'', 3600, ex_a1),
      (''mail.example.com.'', 3600, ex_a2)]"

definition ex_opts :: "bool \<Rightarrow> options" where
  "ex_opts v =
     \<lparr>zone = Some ''example.com'', zonefile = Some ''example.com.zone'',
      nameserver = Some ''10.1.1.1'', verbose = v, compare_soa = False, compare_ns = False\<rparr>"

definition ex_no_opts :: options where
  "ex_no_opts =
     \<lparr>zone = None, zonefile = None, nameserver = None, verbose = False,
      compare_soa = False, compare_ns = False\<rparr>"

definition ex_server :: "string \<Rightarrow> nat \<Rightarrow> nat \<Rightarrow> DNSException + answer" where
  "ex_server name ty cl =
     (if name = ''www.example.com.'' \<and> ty = 1 \<and> cl = 1
      then Inr \<lparr>rrset_ttl = 300, rrset = [ex_a1]\<rparr> else Inl NXDOMAIN)"

definition ex_server_two :: "string \<Rightarrow> nat \<Rightarrow> nat \<Rightarrow> DNSException + answer" where
  "ex_server_two name ty cl =
     (if name = ''www.example.com.'' \<and> ty = 1 \<and> cl = 1
      then Inr \<lparr>rrset_ttl = 300, rrset = [ex_a1, ex_a2]\<rparr> else Inl NXDOMAIN)"

definition ex_server_down :: "string \<Rightarrow> nat \<Rightarrow> nat \<Rightarrow> DNSException + answer" where
  "ex_server_down name ty cl = Inl Timeout"

definition ex_env ::
  "bool \<Rightarrow> (string \<Rightarrow> nat \<Rightarrow> nat \<Rightarrow> DNSException + answer) \<Rightarrow> env" where
  "ex_env installed srv =
     \<lparr>dnspython_installed = installed,
      from_file = (\<lambda>file origin. Inr ex_zone),
      query = (\<lambda>server. srv)\<rparr>"

section \<open>Properties of the comparison\<close>

lemma answer_loop_match:
  "fst (answer_loop rdata rrs (match, result, bound)) =
     (match \<or> (\<exists>rd \<in> set rrs. spec_equal rd rdata))"
  by (induction rrs arbitrary: match result bound) (auto simp: rdata_eq_def spec_equal_def)

lemma answer_loop_last:
  "snd (answer_loop rdata rrs (match, result, bound)) =
     (if rrs = [] then (result, bound) else (Rdata (last rrs), Some (last rrs)))"
  by (induction rrs arbitrary: match result bound) auto

lemma try_query_answer:
  "try_query rdata (Inr ans) bound =
     (\<exists>rd \<in> set (rrset ans). spec_equal rd rdata,
      if rrset ans = [] then (Str '''', bound)
      else (Rdata (last (rrset ans)), Some (last (rrset ans))))"
  unfolding try_query_def
  by (simp add: prod_eq_iff answer_loop_match answer_loop_last)

lemma try_query_failure: "try_query rdata (Inl e) bound = (False, Class e, bound)"
  by (simp add: try_query_def)

lemma count_record_fields:
  "matches (count_record opts match st) = matches st + (if match then 1 else 0)"
  "mismatches (count_record opts match st) = mismatches st + (if match then 0 else 1)"
  "rd_var (count_record opts match st) = rd_var st"
  "sent (count_record opts match st) = sent st"
  "out (count_record opts match st) =
     out st @ (if verbose opts then [] else [Write (if match then ''.'' else ''X''), Flush])"
  by (simp_all add: count_record_def Let_def)

lemma verbose_block_quiet: "\<not> verbose opts \<Longrightarrow> verbose_block opts name rdata match st = Inr st"
  by (simp add: verbose_block_def)

lemma verbose_block_fields:
  assumes "verbose_block opts name rdata match st = Inr st1"
  shows "matches st1 = matches st" "mismatches st1 = mismatches st"
    "rd_var st1 = rd_var st" "sent st1 = sent st"
  using assms
  by (auto simp: verbose_block_def Let_def split: if_splits option.splits)

lemma loop_body_skipped:
  "spec_skipped opts rdata \<Longrightarrow> loop_body opts r st (name, ttl, rdata) = Inr st"
  by (auto simp: loop_body_def spec_skipped_def)

lemma loop_body_compared:
  "\<not> spec_skipped opts rdata \<Longrightarrow>
     loop_body opts r st (name, ttl, rdata) = compare_record opts r st name rdata"
  by (auto simp: loop_body_def spec_skipped_def)

lemma try_query_match:
  "fst (try_query rdata (r name (rdtype rdata) (rdclass rdata)) bound) =
     spec_matched r (name, ttl, rdata)"
  by (cases "r name (rdtype rdata) (rdclass rdata)")
     (simp_all add: spec_matched_def try_query_answer try_query_failure)

lemma compare_record_sent:
  assumes "compare_record opts r st name rdata = Inr st1"
  shows "sent st1 = sent st @ [(name, rdtype rdata, rdclass rdata)]"
proof -
  obtain m res b where t: "try_query rdata (r name (rdtype rdata) (rdclass rdata)) (rd_var st) = (m, res, b)"
    by (cases "try_query rdata (r name (rdtype rdata) (rdclass rdata)) (rd_var st)") auto
  from assms t obtain st0 where
    v: "verbose_block opts name rdata m
          (st\<lparr>rd_var := b, sent := sent st @ [(name, rdtype rdata, rdclass rdata)]\<rparr>) = Inr st0"
    and s: "st1 = count_record opts m st0"
    by (auto simp: compare_record_def split: sum.splits)
  show ?thesis
    using verbose_block_fields(4) [OF v] by (simp add: s count_record_fields)
qed

lemma compare_record_quiet:
  assumes "\<not> verbose opts"
  shows "\<exists>st1. compare_record opts r st name rdata = Inr st1
     \<and> matches st1 = matches st + (if spec_matched r (name, ttl, rdata) then 1 else 0)
     \<and> mismatches st1 = mismatches st + (if spec_matched r (name, ttl, rdata) then 0 else 1)
     \<and> out st1 = out st @ spec_progress r (name, ttl, rdata)
     \<and> sent st1 = sent st @ [(name, rdtype rdata, rdclass rdata)]"
proof -
  obtain m res b where t: "try_query rdata (r name (rdtype rdata) (rdclass rdata)) (rd_var st) = (m, res, b)"
    by (cases "try_query rdata (r name (rdtype rdata) (rdclass rdata)) (rd_var st)") auto
  have m: "m = spec_matched r (name, ttl, rdata)"
    using try_query_match [of rdata r name "rd_var st" ttl] t by simp
  show ?thesis
    using assms
    by (simp add: compare_record_def t verbose_block_quiet count_record_fields spec_progress_def m)
qed

lemma run_loop_quiet:
  assumes "\<not> verbose opts"
  shows "\<exists>st1. run_loop opts r st z = Inr st1
     \<and> matches st1 = matches st + length (filter (spec_matched r) (spec_compared opts z))
     \<and> mismatches st1 =
         mismatches st + length (filter (\<lambda>rec. \<not> spec_matched r rec) (spec_compared opts z))
     \<and> out st1 = out st @ concat (map (spec_progress r) (spec_compared opts z))
     \<and> sent st1 = sent st @ map query_of (spec_compared opts z)"
proof (induction z arbitrary: st)
  case Nil
  show ?case by (simp add: spec_compared_def)
next
  case (Cons rec z)
  obtain name ttl rdata where rec: "rec = (name, ttl, rdata)"
    by (cases rec) auto
  show ?case
  proof (cases "spec_skipped opts rdata")
    case True
    then show ?thesis
      using Cons.IH [of st] by (simp add: rec loop_body_skipped spec_compared_def)
  next
    case False
    from compare_record_quiet [OF assms, of r st name rdata ttl] obtain st1 where
      c: "compare_record opts r st name rdata = Inr st1"
      and f: "matches st1 = matches st + (if spec_matched r (name, ttl, rdata) then 1 else 0)"
        "mismatches st1 = mismatches st + (if spec_matched r (name, ttl, rdata) then 0 else 1)"
        "out st1 = out st @ spec_progress r (name, ttl, rdata)"
        "sent st1 = sent st @ [(name, rdtype rdata, rdclass rdata)]"
      by blast
    from Cons.IH [of st1] show ?thesis
      using False by (auto simp: rec loop_body_compared c f spec_compared_def query_of_def)
  qed
qed


lemma verbose_failure_unbound:
  assumes "verbose opts" "r name (rdtype rdata) (rdclass rdata) = Inl e" "rd_var st = None"
  shows "\<exists>st1. compare_record opts r st name rdata = Inl (NameError ''rd'', st1)
           \<and> sent st1 = sent st @ [(name, rdtype rdata, rdclass rdata)]
           \<and> matches st1 = matches st \<and> mismatches st1 = mismatches st"
  using assms by (simp add: compare_record_def try_query_failure verbose_block_def Let_def)

lemma verbose_failure_stale:
  assumes "verbose opts" "r name (rdtype rdata) (rdclass rdata) = Inl e" "rd_var st = Some x"
  shows "\<exists>st1. compare_record opts r st name rdata = Inr st1
           \<and> out st1 = out st @ spec_block opts name rdata False (to_text x)
           \<and> mismatches st1 = mismatches st + 1 \<and> matches st1 = matches st"
  using assms
  by (simp add: compare_record_def try_query_failure verbose_block_def Let_def
      count_record_fields spec_block_def)

lemma verbose_answer:
  assumes "verbose opts" "r name (rdtype rdata) (rdclass rdata) = Inr ans" "rrset ans \<noteq> []"
  shows "\<exists>st1. compare_record opts r st name rdata = Inr st1
           \<and> out st1 = out st @ spec_block opts name rdata (spec_matched r (name, ttl, rdata))
                                   (to_text (last (rrset ans)))
           \<and> rd_var st1 = Some (last (rrset ans))"
  using assms
  by (simp add: compare_record_def try_query_answer verbose_block_def Let_def
      count_record_fields spec_block_def spec_matched_def)

lemma run_loop_skipped_prefix:
  "\<forall>rec \<in> set pre. spec_skipped opts (snd (snd rec)) \<Longrightarrow>
     run_loop opts r st (pre @ rest) = run_loop opts r st rest"
proof (induction pre)
  case Nil
  show ?case by simp
next
  case (Cons rec pre)
  obtain name ttl rdata where rec: "rec = (name, ttl, rdata)"
    by (cases rec) auto
  from Cons show ?case
    by (simp add: rec loop_body_skipped)
qed

lemma compare_record_rd:
  assumes "compare_record opts r st name rdata = Inr st1"
  shows "rd_var st1 =
     (case r name (rdtype rdata) (rdclass rdata) of
        Inl e \<Rightarrow> rd_var st
      | Inr ans \<Rightarrow> if rrset ans = [] then rd_var st else Some (last (rrset ans)))"
proof -
  obtain m res b where t: "try_query rdata (r name (rdtype rdata) (rdclass rdata)) (rd_var st) = (m, res, b)"
    by (cases "try_query rdata (r name (rdtype rdata) (rdclass rdata)) (rd_var st)") auto
  from assms t obtain st0 where
    v: "verbose_block opts name rdata m
          (st\<lparr>rd_var := b, sent := sent st @ [(name, rdtype rdata, rdclass rdata)]\<rparr>) = Inr st0"
    and s: "st1 = count_record opts m st0"
    by (auto simp: compare_record_def split: sum.splits)
  have "rd_var st1 = b"
    using verbose_block_fields(3) [OF v] by (simp add: s count_record_fields)
  with t show ?thesis
    by (cases "r name (rdtype rdata) (rdclass rdata)")
       (auto simp: try_query_answer try_query_failure)
qed

lemma run_loop_rd_origin:
  assumes "run_loop opts r st pre = Inr st1" "rd_var st1 = Some x"
  shows "rd_var st = Some x \<or> (\<exists>rec \<in> set pre. spec_answered_by opts r x rec)"
  using assms
proof (induction pre arbitrary: st)
  case Nil
  then show ?case by simp
next
  case (Cons rec pre)
  obtain name ttl rdata where rec: "rec = (name, ttl, rdata)"
    by (cases rec) auto
  from Cons.prems(1) obtain st0 where
    b: "loop_body opts r st rec = Inr st0" and l: "run_loop opts r st0 pre = Inr st1"
    by (auto split: sum.splits)
  from Cons.IH [OF l Cons.prems(2)]
  consider "rd_var st0 = Some x" | "\<exists>rec \<in> set pre. spec_answered_by opts r x rec"
    by blast
  then show ?case
  proof cases
    case 1
    show ?thesis
    proof (cases "spec_skipped opts rdata")
      case True
      with b 1 show ?thesis by (simp add: rec loop_body_skipped)
    next
      case False
      with b have "compare_record opts r st name rdata = Inr st0"
        by (simp add: rec loop_body_compared)
      from compare_record_rd [OF this] 1 False show ?thesis
        by (auto simp: rec spec_answered_by_def split: sum.splits if_splits)
    qed
  next
    case 2
    then show ?thesis by auto
  qed
qed

lemma compare_record_counts:
  assumes "compare_record opts r st name rdata = Inr st1"
  shows "matches st1 = matches st + (if spec_matched r (name, ttl, rdata) then 1 else 0)"
    and "mismatches st1 = mismatches st + (if spec_matched r (name, ttl, rdata) then 0 else 1)"
proof -
  obtain m res b where t: "try_query rdata (r name (rdtype rdata) (rdclass rdata)) (rd_var st) = (m, res, b)"
    by (cases "try_query rdata (r name (rdtype rdata) (rdclass rdata)) (rd_var st)") auto
  have m: "m = spec_matched r (name, ttl, rdata)"
    using try_query_match [of rdata r name "rd_var st" ttl] t by simp
  from assms t obtain st0 where
    v: "verbose_block opts name rdata m
          (st\<lparr>rd_var := b, sent := sent st @ [(name, rdtype rdata, rdclass rdata)]\<rparr>) = Inr st0"
    and s: "st1 = count_record opts m st0"
    by (auto simp: compare_record_def split: sum.splits)
  show "matches st1 = matches st + (if spec_matched r (name, ttl, rdata) then 1 else 0)"
    using verbose_block_fields(1) [OF v] by (simp add: s m count_record_fields)
  show "mismatches st1 = mismatches st + (if spec_matched r (name, ttl, rdata) then 0 else 1)"
    using verbose_block_fields(2) [OF v] by (simp add: s m count_record_fields)
qed

lemma loop_body_ttl:
  "loop_body opts r st (name, ttl, rdata) = loop_body opts r st (name, ttl', rdata)"
  by (simp add: loop_body_def)

lemma run_loop_ttl:
  "run_loop opts r st (map (\<lambda>(name, ttl, rdata). (name, f ttl, rdata)) z) = run_loop opts r st z"
proof (induction z arbitrary: st)
  case Nil
  show ?case by simp
next
  case (Cons rec z)
  obtain name ttl rdata where rec: "rec = (name, ttl, rdata)"
    by (cases rec) auto
  have "loop_body opts r st (name, f ttl, rdata) = loop_body opts r st (name, ttl, rdata)"
    by (rule loop_body_ttl)
  with Cons.IH show ?case
    by (simp add: rec split: sum.splits)
qed

lemma compare_record_verbose_bound:
  assumes "verbose opts" "compare_record opts r st name rdata = Inr st1"
  shows "rd_var st1 \<noteq> None"
proof -
  obtain m res b where t: "try_query rdata (r name (rdtype rdata) (rdclass rdata)) (rd_var st) = (m, res, b)"
    by (cases "try_query rdata (r name (rdtype rdata) (rdclass rdata)) (rd_var st)") auto
  from assms(2) t obtain st0 where
    v: "verbose_block opts name rdata m
          (st\<lparr>rd_var := b, sent := sent st @ [(name, rdtype rdata, rdclass rdata)]\<rparr>) = Inr st0"
    and s: "st1 = count_record opts m st0"
    by (auto simp: compare_record_def split: sum.splits)
  from v assms(1) have "b \<noteq> None"
    by (auto simp: verbose_block_def Let_def split: option.splits)
  with verbose_block_fields(3) [OF v] show ?thesis
    by (simp add: s count_record_fields)
qed

lemma loop_body_keeps_bound:
  assumes "loop_body opts r st rec = Inr st1" "rd_var st \<noteq> None"
  shows "rd_var st1 \<noteq> None"
proof -
  obtain name ttl rdata where rec: "rec = (name, ttl, rdata)"
    by (cases rec) auto
  show ?thesis
  proof (cases "spec_skipped opts rdata")
    case True
    with assms show ?thesis by (simp add: rec loop_body_skipped)
  next
    case False
    with assms(1) have "compare_record opts r st name rdata = Inr st1"
      by (simp add: rec loop_body_compared)
    from compare_record_rd [OF this] assms(2) show ?thesis
      by (auto split: sum.splits if_splits)
  qed
qed

lemma run_loop_keeps_bound:
  assumes "run_loop opts r st z = Inr st1" "rd_var st \<noteq> None"
  shows "rd_var st1 \<noteq> None"
  using assms
proof (induction z arbitrary: st)
  case Nil
  then show ?case by simp
next
  case (Cons rec z)
  from Cons.prems(1) obtain st0 where
    b: "loop_body opts r st rec = Inr st0" and l: "run_loop opts r st0 z = Inr st1"
    by (auto split: sum.splits)
  from loop_body_keeps_bound [OF b Cons.prems(2)] have "rd_var st0 \<noteq> None" .
  from Cons.IH [OF l this] show ?case .
qed

lemma run_loop_verbose_bound:
  assumes "verbose opts" "run_loop opts r st z = Inr st1"
    "\<exists>rec \<in> set z. \<not> spec_skipped opts (snd (snd rec))"
  shows "rd_var st1 \<noteq> None"
  using assms(2,3)
proof (induction z arbitrary: st)
  case Nil
  then show ?case by simp
next
  case (Cons rec z)
  obtain name ttl rdata where rec: "rec = (name, ttl, rdata)"
    by (cases rec) auto
  from Cons.prems(1) obtain st0 where
    b: "loop_body opts r st rec = Inr st0" and l: "run_loop opts r st0 z = Inr st1"
    by (auto split: sum.splits)
  show ?case
  proof (cases "spec_skipped opts rdata")
    case True
    with Cons.prems(2) have "\<exists>rec \<in> set z. \<not> spec_skipped opts (snd (snd rec))"
      by (simp add: rec)
    from Cons.IH [OF l this] show ?thesis .
  next
    case False
    with b have "compare_record opts r st name rdata = Inr st0"
      by (simp add: rec loop_body_compared)
    from compare_record_verbose_bound [OF assms(1) this] have "rd_var st0 \<noteq> None" .
    from run_loop_keeps_bound [OF l this] show ?thesis .
  qed
qed

lemmas run_defs =
  main_def loop_body_def compare_record_def try_query_def verbose_block_def count_record_def
  init_state_def summary_def Let_def SOA_def NS_def

lemmas ex_defs =
  ex_env_def ex_opts_def ex_zone_def ex_ns_def ex_a1_def ex_a2_def
  ex_server_def ex_server_down_def rdata_eq_def

section \<open>The claims\<close>

text \<open>
  C1. After a query that succeeds, \<^verbatim>\<open>match\<close> is true exactly when some rdata of the
  answer has the type, the class and the canonical payload of the expected rdata; an
  answer that contains the expected rdata matches; and an iteration that gets past its
  report counts the record as a match in exactly that case, as a mismatch otherwise.
\<close>

theorem C1_match_iff_some_answer_equal:
  "r name (rdtype rdata) (rdclass rdata) = Inr ans \<longrightarrow>
     (fst (try_query rdata (Inr ans) bound) =
        (\<exists>rd \<in> set (rrset ans).
           rdtype rd = rdtype rdata \<and> rdclass rd = rdclass rdata \<and> canon rd = canon rdata))
     \<and> (rdata \<in> set (rrset ans) \<longrightarrow> fst (try_query rdata (Inr ans) bound))
     \<and> (\<forall>st1. compare_record opts r st name rdata = Inr st1 \<longrightarrow>
           matches st1 = matches st + (if spec_matched r (name, ttl, rdata) then 1 else 0)
         \<and> mismatches st1 = mismatches st + (if spec_matched r (name, ttl, rdata) then 0 else 1))"
proof (intro impI conjI allI)
  assume q: "r name (rdtype rdata) (rdclass rdata) = Inr ans"
  show "fst (try_query rdata (Inr ans) bound) =
        (\<exists>rd \<in> set (rrset ans).
           rdtype rd = rdtype rdata \<and> rdclass rd = rdclass rdata \<and> canon rd = canon rdata)"
    by (simp add: try_query_answer spec_equal_def)
  show "fst (try_query rdata (Inr ans) bound)" if "rdata \<in> set (rrset ans)"
    using that by (auto simp: try_query_answer spec_equal_def)
  fix st1
  assume c: "compare_record opts r st name rdata = Inr st1"
  have m: "spec_matched r (name, ttl, rdata) = (\<exists>rd \<in> set (rrset ans). spec_equal rd rdata)"
    by (simp add: spec_matched_def q)
  from c obtain st0 where
    v: "verbose_block opts name rdata (spec_matched r (name, ttl, rdata))
          (st\<lparr>rd_var := (if rrset ans = [] then rd_var st else Some (last (rrset ans))),
              sent := sent st @ [(name, rdtype rdata, rdclass rdata)]\<rparr>) = Inr st0"
    and s: "st1 = count_record opts (spec_matched r (name, ttl, rdata)) st0"
    by (auto simp: compare_record_def q try_query_answer m split: sum.splits if_splits)
  show "matches st1 = matches st + (if spec_matched r (name, ttl, rdata) then 1 else 0)"
    using verbose_block_fields(1) [OF v] by (simp add: s count_record_fields)
  show "mismatches st1 = mismatches st + (if spec_matched r (name, ttl, rdata) then 0 else 1)"
    using verbose_block_fields(2) [OF v] by (simp add: s count_record_fields)
qed

theorem C1_witness:
  "fst (try_query ex_a1 (Inr \<lparr>rrset_ttl = 300, rrset = [ex_a1, ex_a2]\<rparr>) None)
   \<and> (\<exists>st1. compare_record (ex_opts False) ex_server_two init_state ''www.example.com.'' ex_a1
               = Inr st1 \<and> matches st1 = 1 \<and> mismatches st1 = 0)"
proof -
  let ?ans = "\<lparr>rrset_ttl = 300, rrset = [ex_a1, ex_a2]\<rparr>"
  have q: "ex_server_two ''www.example.com.'' (rdtype ex_a1) (rdclass ex_a1) = Inr ?ans"
    by (simp add: ex_server_two_def ex_a1_def)
  have m: "spec_matched ex_server_two (''www.example.com.'', 3600, ex_a1)"
    by (simp add: spec_matched_def q spec_equal_def)
  have v: "\<not> verbose (ex_opts False)"
    by (simp add: ex_opts_def)
  from compare_record_quiet [OF v, of ex_server_two init_state "''www.example.com.''" ex_a1 3600]
  obtain st1 where
    c: "compare_record (ex_opts False) ex_server_two init_state ''www.example.com.'' ex_a1 = Inr st1"
    by blast
  note t = C1_match_iff_some_answer_equal [where r = ex_server_two and name = "''www.example.com.''"
      and rdata = ex_a1 and ans = ?ans and bound = None and opts = "ex_opts False"
      and st = init_state and ttl = 3600]
  from t q have "fst (try_query ex_a1 (Inr ?ans) None)"
    by simp
  moreover from t q c m have "matches st1 = 1 \<and> mismatches st1 = 0"
    by (simp add: init_state_def)
  ultimately show ?thesis
    using c by simp
qed

text \<open>
  C2 fails in verbose mode. The zone has two compared records and every query times
  out: the run stops in the block of the first record with an uncaught NameError, the
  second record is never queried, and no outcome is counted or summarised.
\<close>

theorem C2_verbose_failure_aborts_loop:
  "main (ex_env True ex_server_down) (ex_opts True) =
     \<lparr>stdout =
        [py_print [''----''],
         py_print [query_line (ex_opts True) ''www.example.com.'' ex_a1 False],
         py_print [''Expected: '', ''10.0.0.1''],
         Write ''Got     : ''],
      stderr = [NameError ''rd''], exit_code = 1,
      queries = [(''www.example.com.'', 1, 1)]\<rparr>
   \<and> map query_of (spec_compared (ex_opts True) ex_zone) =
       [(''www.example.com.'', 1, 1), (''mail.example.com.'', 1, 1)]"
  by (simp add: run_defs ex_defs spec_compared_def spec_skipped_def query_of_def)

text \<open>
  C3. The TTL takes no part in the comparison: an iteration, and a whole run of the loop,
  do the same whatever TTLs the zone gives its records; the TTL of the answer's rrset does
  not change what the try statement computes; and an answer that holds the expected rdata
  under any TTL is a match, never counted as a mismatch.
\<close>

theorem C3_ttl_excluded_from_comparison:
  "loop_body opts r st (name, ttl, rdata) = loop_body opts r st (name, ttl', rdata)
   \<and> run_loop opts r st (map (\<lambda>(name, ttl, rdata). (name, f ttl, rdata)) z) = run_loop opts r st z
   \<and> try_query rdata (Inr (ans\<lparr>rrset_ttl := t\<rparr>)) bound = try_query rdata (Inr ans) bound
   \<and> fst (try_query rdata (Inr \<lparr>rrset_ttl = t, rrset = [rdata]\<rparr>) bound)
   \<and> (r name (rdtype rdata) (rdclass rdata) = Inr \<lparr>rrset_ttl = t, rrset = [rdata]\<rparr> \<longrightarrow>
        (\<forall>st1. loop_body opts r st (name, ttl, rdata) = Inr st1 \<longrightarrow>
           mismatches st1 = mismatches st))"
proof (intro conjI impI allI)
  show "loop_body opts r st (name, ttl, rdata) = loop_body opts r st (name, ttl', rdata)"
    by (rule loop_body_ttl)
  show "run_loop opts r st (map (\<lambda>(name, ttl, rdata). (name, f ttl, rdata)) z) = run_loop opts r st z"
    by (rule run_loop_ttl)
  show "try_query rdata (Inr (ans\<lparr>rrset_ttl := t\<rparr>)) bound = try_query rdata (Inr ans) bound"
    by (simp add: try_query_def)
  show "fst (try_query rdata (Inr \<lparr>rrset_ttl = t, rrset = [rdata]\<rparr>) bound)"
    by (simp add: try_query_answer spec_equal_def)
next
  fix st1
  assume q: "r name (rdtype rdata) (rdclass rdata) = Inr \<lparr>rrset_ttl = t, rrset = [rdata]\<rparr>"
    and b: "loop_body opts r st (name, ttl, rdata) = Inr st1"
  have m: "spec_matched r (name, ttl, rdata)"
    by (simp add: spec_matched_def q spec_equal_def)
  show "mismatches st1 = mismatches st"
  proof (cases "spec_skipped opts rdata")
    case True
    with b show ?thesis by (simp add: loop_body_skipped)
  next
    case False
    with b have "compare_record opts r st name rdata = Inr st1"
      by (simp add: loop_body_compared)
    from compare_record_counts(2) [OF this, of ttl] m show ?thesis by simp
  qed
qed

theorem C3_witness:
  "loop_body (ex_opts False) ex_server init_state (''www.example.com.'', 3600, ex_a1)
     = loop_body (ex_opts False) ex_server init_state (''www.example.com.'', 300, ex_a1)
   \<and> fst (try_query ex_a1 (Inr \<lparr>rrset_ttl = 300, rrset = [ex_a1]\<rparr>) None)
   \<and> (\<exists>st1. loop_body (ex_opts False) ex_server init_state (''www.example.com.'', 3600, ex_a1)
               = Inr st1 \<and> mismatches st1 = 0)"
proof -
  note t = C3_ttl_excluded_from_comparison [where opts = "ex_opts False" and r = ex_server
      and st = init_state and name = "''www.example.com.''" and ttl = 3600 and ttl' = 300
      and rdata = ex_a1 and t = 300 and bound = None]
  have q: "ex_server ''www.example.com.'' (rdtype ex_a1) (rdclass ex_a1)
             = Inr \<lparr>rrset_ttl = 300, rrset = [ex_a1]\<rparr>"
    by (simp add: ex_server_def ex_a1_def)
  have k: "\<not> spec_skipped (ex_opts False) ex_a1"
    by (simp add: spec_skipped_def ex_a1_def SOA_def NS_def)
  have v: "\<not> verbose (ex_opts False)"
    by (simp add: ex_opts_def)
  from compare_record_quiet [OF v, of ex_server init_state "''www.example.com.''" ex_a1 3600] k
  obtain st1 where
    b: "loop_body (ex_opts False) ex_server init_state (''www.example.com.'', 3600, ex_a1) = Inr st1"
    by (auto simp: loop_body_compared)
  with t q have "mismatches st1 = 0"
    by (simp add: init_state_def)
  with t b show ?thesis by blast
qed

text \<open>
  C4. An iteration leaves the state as it was (no query, no count, no output) exactly when
  the record is an SOA record and \<^verbatim>\<open>compare_soa\<close> is off, or an NS record and
  \<^verbatim>\<open>compare_ns\<close> is off; every other record, SOA and NS with their flag on included,
  goes through the same comparison.
\<close>

theorem C4_skip_exactly_soa_ns_without_flag:
  "(loop_body opts r st (name, ttl, rdata) = Inr st) =
     ((rdtype rdata = SOA \<and> \<not> compare_soa opts) \<or> (rdtype rdata = NS \<and> \<not> compare_ns opts))
   \<and> (\<not> ((rdtype rdata = SOA \<and> \<not> compare_soa opts) \<or> (rdtype rdata = NS \<and> \<not> compare_ns opts))
        \<longrightarrow> loop_body opts r st (name, ttl, rdata) = compare_record opts r st name rdata)"
proof (cases "spec_skipped opts rdata")
  case True
  then have "loop_body opts r st (name, ttl, rdata) = Inr st"
    by (rule loop_body_skipped)
  with True show ?thesis
    unfolding spec_skipped_def by blast
next
  case False
  have n: "compare_record opts r st name rdata \<noteq> Inr st"
  proof
    assume "compare_record opts r st name rdata = Inr st"
    from compare_record_sent [OF this] show False by simp
  qed
  from False have "loop_body opts r st (name, ttl, rdata) = compare_record opts r st name rdata"
    by (rule loop_body_compared)
  with False n show ?thesis
    unfolding spec_skipped_def by simp
qed

theorem C4_witness:
  "loop_body (ex_opts False) ex_server init_state (''example.com.'', 86400, ex_ns) = Inr init_state
   \<and> loop_body ((ex_opts False)\<lparr>compare_ns := True\<rparr>) ex_server init_state
        (''example.com.'', 86400, ex_ns)
      = compare_record ((ex_opts False)\<lparr>compare_ns := True\<rparr>) ex_server init_state
          ''example.com.'' ex_ns
   \<and> loop_body ((ex_opts False)\<lparr>compare_ns := True\<rparr>) ex_server init_state
        (''example.com.'', 86400, ex_ns) \<noteq> Inr init_state"
proof -
  have off: "rdtype ex_ns = NS \<and> \<not> compare_ns (ex_opts False)"
    by (simp add: ex_ns_def ex_opts_def NS_def)
  have on: "\<not> ((rdtype ex_ns = SOA \<and> \<not> compare_soa ((ex_opts False)\<lparr>compare_ns := True\<rparr>))
             \<or> (rdtype ex_ns = NS \<and> \<not> compare_ns ((ex_opts False)\<lparr>compare_ns := True\<rparr>)))"
    by (simp add: ex_ns_def ex_opts_def NS_def SOA_def)
  from off C4_skip_exactly_soa_ns_without_flag [of "ex_opts False" ex_server init_state
      "''example.com.''" 86400 ex_ns]
  have a: "loop_body (ex_opts False) ex_server init_state (''example.com.'', 86400, ex_ns)
             = Inr init_state"
    by blast
  from on C4_skip_exactly_soa_ns_without_flag [of "(ex_opts False)\<lparr>compare_ns := True\<rparr>"
      ex_server init_state "''example.com.''" 86400 ex_ns]
  have b: "loop_body ((ex_opts False)\<lparr>compare_ns := True\<rparr>) ex_server init_state
        (''example.com.'', 86400, ex_ns)
      = compare_record ((ex_opts False)\<lparr>compare_ns := True\<rparr>) ex_server init_state
          ''example.com.'' ex_ns"
    and c: "loop_body ((ex_opts False)\<lparr>compare_ns := True\<rparr>) ex_server init_state
        (''example.com.'', 86400, ex_ns) \<noteq> Inr init_state"
    by blast+
  from a b c show ?thesis by blast
qed

text \<open>
  C5 fails when a query fails. The server answers the first A record and raises NXDOMAIN
  for the second: the block of the second record shows, as "Got", the answer to the
  first record, not the failure.
\<close>

theorem C5_verbose_block_shows_stale_answer:
  "ex_server ''mail.example.com.'' 1 1 = Inl NXDOMAIN
   \<and> main (ex_env True ex_server) (ex_opts True) =
     \<lparr>stdout =
        [py_print [''----''],
         py_print [query_line (ex_opts True) ''www.example.com.'' ex_a1 True],
         py_print [''Expected: '', ''10.0.0.1''],
         py_print [''Got     : '', ''10.0.0.1''],
         py_print [''----''],
         py_print [query_line (ex_opts True) ''mail.example.com.'' ex_a2 False],
         py_print [''Expected: '', ''10.0.0.2''],
         py_print [''Got     : '', ''10.0.0.1''],
         py_print [''done''],
         py_print [newline # ''Results:''],
         py_print [''Matches:     '', ''1''],
         py_print [''Mis-matches: '', ''1'']],
      stderr = [], exit_code = 0,
      queries = [(''www.example.com.'', 1, 1), (''mail.example.com.'', 1, 1)]\<rparr>"
  by (simp add: run_defs ex_defs str_nat.simps)

text \<open>
  C6, as the claim states it, fails: with every required option missing the usage error
  is written to standard output and standard error stays empty; and when the import of
  dnspython fails, the install message is printed instead of the usage error.
\<close>

theorem C6_counterexample:
  "zone ex_no_opts = None \<and> zonefile ex_no_opts = None \<and> nameserver ex_no_opts = None
   \<and> stderr (main (ex_env True ex_server) ex_no_opts) = []
   \<and> stdout (main (ex_env True ex_server) ex_no_opts) = [py_print [usage_error]]
   \<and> stdout (main (ex_env False ex_server) ex_no_opts) =
        [py_print [''Please install dnspython:''], py_print [''$ sudo easy_install dnspython'']]"
  by (simp add: main_def ex_env_def ex_no_opts_def)

text \<open>
  C6, amended. When dnspython imports and one of the three required options is unset,
  the run writes the line \<^verbatim>\<open>Error: required arguments: --zone, --file, --server\<close> to
  standard output, nothing to standard error, exits with code -1 (status 255), and sends
  no query: the zone file and the server play no part in the result.
\<close>

theorem C6_missing_option_usage_on_stdout:
  "dnspython_installed e \<and> (zone opts = None \<or> zonefile opts = None \<or> nameserver opts = None) \<longrightarrow>
     main e opts =
       \<lparr>stdout = [py_print [''Error: required arguments: --zone, --file, --server'']],
        stderr = [], exit_code = - 1, queries = []\<rparr>
     \<and> exit_status (main e opts) = 255"
proof (intro impI)
  assume a: "dnspython_installed e \<and>
    (zone opts = None \<or> zonefile opts = None \<or> nameserver opts = None)"
  then have m: "main e opts =
       \<lparr>stdout = [py_print [usage_error]], stderr = [], exit_code = - 1, queries = []\<rparr>"
    by (auto simp: main_def split: option.splits)
  then show "main e opts =
       \<lparr>stdout = [py_print [''Error: required arguments: --zone, --file, --server'']],
        stderr = [], exit_code = - 1, queries = []\<rparr>
     \<and> exit_status (main e opts) = 255"
    by (simp add: usage_error_def exit_status_def)
qed

theorem C6_witness:
  "main (ex_env True ex_server) ((ex_opts False)\<lparr>zonefile := None\<rparr>) =
     \<lparr>stdout = [py_print [''Error: required arguments: --zone, --file, --server'']],
      stderr = [], exit_code = - 1, queries = []\<rparr>
   \<and> exit_status (main (ex_env True ex_server) ((ex_opts False)\<lparr>zonefile := None\<rparr>)) = 255"
proof -
  have "dnspython_installed (ex_env True ex_server) \<and>
    (zone ((ex_opts False)\<lparr>zonefile := None\<rparr>) = None
     \<or> zonefile ((ex_opts False)\<lparr>zonefile := None\<rparr>) = None
     \<or> nameserver ((ex_opts False)\<lparr>zonefile := None\<rparr>) = None)"
    by (simp add: ex_env_def)
  with C6_missing_option_usage_on_stdout [of "ex_env True ex_server"
      "(ex_opts False)\<lparr>zonefile := None\<rparr>"]
  show ?thesis by blast
qed

text \<open>
  C7. A run with the library present, the three required options given, a zone that
  loads and verbose off: for each record that is not skipped, in the order of the zone,
  one write of \<^verbatim>\<open>.\<close> (match) or \<^verbatim>\<open>X\<close> (mismatch) followed by a flush; then
  \<^verbatim>\<open>done\<close>, the results header, the two counts, and the hint when a mismatch was
  counted. Nothing goes to standard error and the exit code is 0.
\<close>

theorem C7_quiet_run_output:
  "dnspython_installed e \<and> zone opts = Some origin \<and> zonefile opts = Some file
   \<and> nameserver opts = Some server \<and> from_file e file origin = Inr z \<and> verbose opts = False \<longrightarrow>
   (let recs = filter (\<lambda>rec. \<not> spec_skipped opts (snd (snd rec))) z;
        m = length (filter (spec_matched (query e server)) recs);
        n = length (filter (\<lambda>rec. \<not> spec_matched (query e server) rec) recs)
    in main e opts =
         \<lparr>stdout =
            concat (map (\<lambda>rec. [Write (if spec_matched (query e server) rec then ''.'' else ''X''),
                                 Flush]) recs)
            @ [py_print [''done''],
               py_print [newline # ''Results:''],
               py_print [''Matches:     '', str_nat m],
               py_print [''Mis-matches: '', str_nat n]]
            @ (if n > 0 then [py_print [hint]] else []),
          stderr = [], exit_code = 0,
          queries = map query_of recs\<rparr>)"
proof (intro impI)
  assume a: "dnspython_installed e \<and> zone opts = Some origin \<and> zonefile opts = Some file
   \<and> nameserver opts = Some server \<and> from_file e file origin = Inr z \<and> verbose opts = False"
  then have v: "\<not> verbose opts" by simp
  from run_loop_quiet [OF v, of "query e server" init_state z] obtain st1 where
    l: "run_loop opts (query e server) init_state z = Inr st1"
    and f: "matches st1 = length (filter (spec_matched (query e server)) (spec_compared opts z))"
      "mismatches st1 =
         length (filter (\<lambda>rec. \<not> spec_matched (query e server) rec) (spec_compared opts z))"
      "out st1 = concat (map (spec_progress (query e server)) (spec_compared opts z))"
      "sent st1 = map query_of (spec_compared opts z)"
    by (auto simp: init_state_def)
  have p: "spec_progress (query e server) =
             (\<lambda>rec. [Write (if spec_matched (query e server) rec then ''.'' else ''X''), Flush])"
    by (rule ext) (simp add: spec_progress_def)
  from a have "main e opts =
      \<lparr>stdout = out st1 @ summary opts (matches st1) (mismatches st1),
       stderr = [], exit_code = 0, queries = sent st1\<rparr>"
    by (simp add: main_def l)
  then show "(let recs = filter (\<lambda>rec. \<not> spec_skipped opts (snd (snd rec))) z;
        m = length (filter (spec_matched (query e server)) recs);
        n = length (filter (\<lambda>rec. \<not> spec_matched (query e server) rec) recs)
    in main e opts =
         \<lparr>stdout =
            concat (map (\<lambda>rec. [Write (if spec_matched (query e server) rec then ''.'' else ''X''),
                                 Flush]) recs)
            @ [py_print [''done''],
               py_print [newline # ''Results:''],
               py_print [''Matches:     '', str_nat m],
               py_print [''Mis-matches: '', str_nat n]]
            @ (if n > 0 then [py_print [hint]] else []),
          stderr = [], exit_code = 0,
          queries = map query_of recs\<rparr>)"
    using v unfolding Let_def f p spec_compared_def summary_def by simp
qed

theorem C7_witness:
  "main (ex_env True ex_server) (ex_opts False) =
     \<lparr>stdout =
        [Write ''.'', Flush, Write ''X'', Flush,
         py_print [''done''],
         py_print [newline # ''Results:''],
         py_print [''Matches:     '', ''1''],
         py_print [''Mis-matches: '', ''1''],
         py_print [hint]],
      stderr = [], exit_code = 0,
      queries = [(''www.example.com.'', 1, 1), (''mail.example.com.'', 1, 1)]\<rparr>"
proof -
  have a: "dnspython_installed (ex_env True ex_server) \<and> zone (ex_opts False) = Some ''example.com''
     \<and> zonefile (ex_opts False) = Some ''example.com.zone''
     \<and> nameserver (ex_opts False) = Some ''10.1.1.1''
     \<and> from_file (ex_env True ex_server) ''example.com.zone'' ''example.com'' = Inr ex_zone
     \<and> verbose (ex_opts False) = False"
    by (simp add: ex_env_def ex_opts_def)
  have q: "query (ex_env True ex_server) ''10.1.1.1'' = ex_server"
    by (simp add: ex_env_def)
  have r: "filter (\<lambda>rec. \<not> spec_skipped (ex_opts False) (snd (snd rec))) ex_zone
             = [(''www.example.com.'', 3600, ex_a1), (''mail.example.com.'', 3600, ex_a2)]"
    by (simp add: ex_zone_def spec_skipped_def ex_opts_def ex_ns_def ex_a1_def ex_a2_def
        NS_def SOA_def)
  have m1: "spec_matched ex_server (''www.example.com.'', 3600, ex_a1)"
    and m2: "\<not> spec_matched ex_server (''mail.example.com.'', 3600, ex_a2)"
    by (simp_all add: spec_matched_def ex_server_def ex_a1_def ex_a2_def spec_equal_def)
  have s: "str_nat (Suc 0) = ''1''"
    by (simp add: str_nat.simps)
  from C7_quiet_run_output [of "ex_env True ex_server" "ex_opts False" "''example.com''"
      "''example.com.zone''" "''10.1.1.1''" ex_zone] a
  show ?thesis
    unfolding q r Let_def
    by (simp add: m1 m2 s query_of_def) (simp add: ex_a1_def ex_a2_def)
qed

text \<open>
  C8 fails in verbose mode. The library is present, the three options are given and the
  zone loads, yet the run ends with exit status 1: the first query times out and the
  verbose block raises NameError.
\<close>

theorem C8_verbose_failure_exit_status:
  "dnspython_installed (ex_env True ex_server_down)
   \<and> zone (ex_opts True) = Some ''example.com''
   \<and> zonefile (ex_opts True) = Some ''example.com.zone''
   \<and> nameserver (ex_opts True) = Some ''10.1.1.1''
   \<and> from_file (ex_env True ex_server_down) ''example.com.zone'' ''example.com'' = Inr ex_zone
   \<and> stderr (main (ex_env True ex_server_down) (ex_opts True)) = [NameError ''rd'']
   \<and> exit_status (main (ex_env True ex_server_down) (ex_opts True)) = 1"
  by (simp add: run_defs ex_defs exit_status_def)

text \<open>
  C9. After a query that returns one or more rdatas, \<^verbatim>\<open>result\<close> and \<^verbatim>\<open>rd\<close> hold
  the last rdata of the answer, whichever rdata matched, and the verbose block of that
  record shows the last rdata on its "Got" line.
\<close>

theorem C9_actual_is_last_answer:
  "rrset ans \<noteq> [] \<longrightarrow>
     snd (try_query rdata (Inr ans) bound) = (Rdata (last (rrset ans)), Some (last (rrset ans)))
   \<and> (verbose opts \<and> r name (rdtype rdata) (rdclass rdata) = Inr ans \<longrightarrow>
        (\<exists>st1. compare_record opts r st name rdata = Inr st1
           \<and> out st1 = out st @
               [py_print [''----''],
                py_print [query_line opts name rdata
                            (\<exists>rd \<in> set (rrset ans). spec_equal rd rdata)],
                py_print [''Expected: '', to_text rdata],
                py_print [''Got     : '', to_text (last (rrset ans))]]))"
proof (intro impI conjI)
  assume n: "rrset ans \<noteq> []"
  then show "snd (try_query rdata (Inr ans) bound)
               = (Rdata (last (rrset ans)), Some (last (rrset ans)))"
    by (simp add: try_query_answer)
  assume "verbose opts \<and> r name (rdtype rdata) (rdclass rdata) = Inr ans"
  then have v: "verbose opts" and q: "r name (rdtype rdata) (rdclass rdata) = Inr ans"
    by simp_all
  from verbose_answer [where r = r and name = name, OF v q n, of st 0]
  show "\<exists>st1. compare_record opts r st name rdata = Inr st1
           \<and> out st1 = out st @
               [py_print [''----''],
                py_print [query_line opts name rdata
                            (\<exists>rd \<in> set (rrset ans). spec_equal rd rdata)],
                py_print [''Expected: '', to_text rdata],
                py_print [''Got     : '', to_text (last (rrset ans))]]"
    by (auto simp: spec_block_def spec_matched_def q)
qed

theorem C9_witness:
  "try_query ex_a1 (Inr \<lparr>rrset_ttl = 300, rrset = [ex_a1, ex_a2]\<rparr>) None
     = (True, Rdata ex_a2, Some ex_a2)
   \<and> (\<exists>st1. compare_record (ex_opts True) ex_server_two init_state ''www.example.com.'' ex_a1
               = Inr st1
        \<and> out st1 =
            [py_print [''----''],
             py_print [query_line (ex_opts True) ''www.example.com.'' ex_a1 True],
             py_print [''Expected: '', ''10.0.0.1''],
             py_print [''Got     : '', ''10.0.0.2'']])"
proof -
  let ?ans = "\<lparr>rrset_ttl = 300, rrset = [ex_a1, ex_a2]\<rparr>"
  note t = C9_actual_is_last_answer [where ans = ?ans and rdata = ex_a1 and bound = None
      and opts = "ex_opts True" and r = ex_server_two and name = "''www.example.com.''"
      and st = init_state]
  have q: "ex_server_two ''www.example.com.'' (rdtype ex_a1) (rdclass ex_a1) = Inr ?ans"
    by (simp add: ex_server_two_def ex_a1_def)
  have v: "verbose (ex_opts True)"
    by (simp add: ex_opts_def)
  have m: "fst (try_query ex_a1 (Inr ?ans) None)"
    by (simp add: try_query_answer spec_equal_def)
  from t have "snd (try_query ex_a1 (Inr ?ans) None) = (Rdata ex_a2, Some ex_a2)"
    by simp
  with m have a: "try_query ex_a1 (Inr ?ans) None = (True, Rdata ex_a2, Some ex_a2)"
    by (simp add: prod_eq_iff)
  from t q v have "\<exists>st1. compare_record (ex_opts True) ex_server_two init_state
        ''www.example.com.'' ex_a1 = Inr st1
        \<and> out st1 =
            [py_print [''----''],
             py_print [query_line (ex_opts True) ''www.example.com.'' ex_a1 True],
             py_print [''Expected: '', ''10.0.0.1''],
             py_print [''Got     : '', ''10.0.0.2'']]"
    by (simp add: init_state_def spec_equal_def) (simp add: ex_a1_def ex_a2_def)
  with a show ?thesis by blast
qed

text \<open>
  C10. In verbose mode the "Got" line prints the global \<^verbatim>\<open>rd\<close>, not the failure that
  was caught. When the query of a compared record fails: with \<^verbatim>\<open>rd\<close> not bound the
  iteration ends in an uncaught NameError; with \<^verbatim>\<open>rd\<close> bound the block shows that
  rdata; the run crashes when the query of the first compared record fails; and when the
  run has got past an earlier compared record, \<^verbatim>\<open>rd\<close> is bound to the last rdata of an
  answer to an earlier record, which is what the block of the failed query shows.
\<close>

theorem C10_verbose_got_line_prints_rd:
  "verbose opts \<longrightarrow> \<not> spec_skipped opts rdata \<longrightarrow> r name (rdtype rdata) (rdclass rdata) = Inl e \<longrightarrow>
     (rd_var st = None \<longrightarrow>
        (\<exists>st1. loop_body opts r st (name, ttl, rdata) = Inl (NameError ''rd'', st1)))
   \<and> (\<forall>x. rd_var st = Some x \<longrightarrow>
        (\<exists>st1. loop_body opts r st (name, ttl, rdata) = Inr st1
           \<and> out st1 = out st @ spec_block opts name rdata False (to_text x)))
   \<and> ((\<forall>rec \<in> set pre. spec_skipped opts (snd (snd rec))) \<longrightarrow>
        (\<exists>st1. run_loop opts r init_state (pre @ (name, ttl, rdata) # rest)
                 = Inl (NameError ''rd'', st1)))
   \<and> (\<forall>st0. run_loop opts r init_state pre = Inr st0
             \<and> (\<exists>rec \<in> set pre. \<not> spec_skipped opts (snd (snd rec))) \<longrightarrow>
        (\<exists>x. rd_var st0 = Some x
           \<and> (\<exists>rec \<in> set pre. spec_answered_by opts r x rec)
           \<and> (\<exists>st1. loop_body opts r st0 (name, ttl, rdata) = Inr st1
                 \<and> out st1 = out st0 @ spec_block opts name rdata False (to_text x))))"
proof (intro impI conjI allI)
  assume v: "verbose opts" and k: "\<not> spec_skipped opts rdata"
    and q: "r name (rdtype rdata) (rdclass rdata) = Inl e"
  show "\<exists>st1. loop_body opts r st (name, ttl, rdata) = Inl (NameError ''rd'', st1)"
    if "rd_var st = None"
    using verbose_failure_unbound [where r = r and name = name, OF v q that] k
    by (auto simp: loop_body_compared)
  show stale: "\<exists>st1. loop_body opts r st (name, ttl, rdata) = Inr st1
           \<and> out st1 = out st @ spec_block opts name rdata False (to_text x)"
    if "rd_var st = Some x" for x st
    using verbose_failure_stale [where r = r and name = name, OF v q that] k
    by (auto simp: loop_body_compared)
  show "\<exists>st1. run_loop opts r init_state (pre @ (name, ttl, rdata) # rest)
                 = Inl (NameError ''rd'', st1)"
    if "\<forall>rec \<in> set pre. spec_skipped opts (snd (snd rec))"
  proof -
    have "rd_var init_state = None" by (simp add: init_state_def)
    from verbose_failure_unbound [where r = r and name = name, OF v q this] obtain st1 where
      "compare_record opts r init_state name rdata = Inl (NameError ''rd'', st1)"
      by blast
    then show ?thesis
      using k by (simp add: run_loop_skipped_prefix [OF that] loop_body_compared)
  qed
  show "\<exists>x. rd_var st0 = Some x
           \<and> (\<exists>rec \<in> set pre. spec_answered_by opts r x rec)
           \<and> (\<exists>st1. loop_body opts r st0 (name, ttl, rdata) = Inr st1
                 \<and> out st1 = out st0 @ spec_block opts name rdata False (to_text x))"
    if h: "run_loop opts r init_state pre = Inr st0
             \<and> (\<exists>rec \<in> set pre. \<not> spec_skipped opts (snd (snd rec)))" for st0
  proof -
    from h have l: "run_loop opts r init_state pre = Inr st0"
      and c: "\<exists>rec \<in> set pre. \<not> spec_skipped opts (snd (snd rec))"
      by simp_all
    from run_loop_verbose_bound [OF v l c] obtain x where x: "rd_var st0 = Some x"
      by auto
    from run_loop_rd_origin [OF l x] have "\<exists>rec \<in> set pre. spec_answered_by opts r x rec"
      by (simp add: init_state_def)
    with x stale [OF x] show ?thesis by blast
  qed
qed

theorem C10_witness:
  "(\<exists>st1. run_loop (ex_opts True) ex_server_down init_state ex_zone = Inl (NameError ''rd'', st1))
   \<and> (\<exists>st0 st1.
         run_loop (ex_opts True) ex_server init_state
           [(''example.com.'', 86400, ex_ns), (''www.example.com.'', 3600, ex_a1)] = Inr st0
       \<and> loop_body (ex_opts True) ex_server st0 (''mail.example.com.'', 3600, ex_a2) = Inr st1
       \<and> out st1 = out st0 @ spec_block (ex_opts True) ''mail.example.com.'' ex_a2 False ''10.0.0.1'')"
proof -
  let ?pre = "[(''example.com.'', 86400, ex_ns), (''www.example.com.'', 3600, ex_a1)]"
  have v: "verbose (ex_opts True)"
    by (simp add: ex_opts_def)
  have k1: "\<not> spec_skipped (ex_opts True) ex_a1" and k2: "\<not> spec_skipped (ex_opts True) ex_a2"
    by (simp_all add: spec_skipped_def ex_a1_def ex_a2_def SOA_def NS_def)
  have s: "\<forall>rec \<in> set [(''example.com.'', 86400, ex_ns)]. spec_skipped (ex_opts True) (snd (snd rec))"
    by (simp add: spec_skipped_def ex_ns_def ex_opts_def NS_def)
  have z: "ex_zone = [(''example.com.'', 86400, ex_ns)] @ (''www.example.com.'', 3600, ex_a1)
             # [(''mail.example.com.'', 3600, ex_a2)]"
    by (simp add: ex_zone_def)
  have q1: "ex_server_down ''www.example.com.'' (rdtype ex_a1) (rdclass ex_a1) = Inl Timeout"
    by (simp add: ex_server_down_def)
  have q2: "ex_server ''mail.example.com.'' (rdtype ex_a2) (rdclass ex_a2) = Inl NXDOMAIN"
    by (simp add: ex_server_def)
  from C10_verbose_got_line_prints_rd [where opts = "ex_opts True" and r = ex_server_down
      and name = "''www.example.com.''" and rdata = ex_a1 and e = Timeout and st = init_state
      and pre = "[(''example.com.'', 86400, ex_ns)]" and ttl = 3600
      and rest = "[(''mail.example.com.'', 3600, ex_a2)]"] v k1 q1 s
  have a: "\<exists>st1. run_loop (ex_opts True) ex_server_down init_state ex_zone = Inl (NameError ''rd'', st1)"
    unfolding z by blast
  obtain st0 where l: "run_loop (ex_opts True) ex_server init_state ?pre = Inr st0"
    by (simp add: run_defs ex_defs)
  have c: "\<exists>rec \<in> set ?pre. \<not> spec_skipped (ex_opts True) (snd (snd rec))"
    using k1 by simp
  have o: "to_text x = ''10.0.0.1''" if "\<exists>rec \<in> set ?pre. spec_answered_by (ex_opts True) ex_server x rec" for x
    using that
    by (auto simp: spec_answered_by_def spec_skipped_def ex_defs NS_def split: if_splits)
  from C10_verbose_got_line_prints_rd [where opts = "ex_opts True" and r = ex_server
      and name = "''mail.example.com.''" and rdata = ex_a2 and e = NXDOMAIN
      and pre = ?pre and ttl = 3600 and st = init_state] v k2 q2 l c
  obtain x st1 where "\<exists>rec \<in> set ?pre. spec_answered_by (ex_opts True) ex_server x rec"
    and "loop_body (ex_opts True) ex_server st0 (''mail.example.com.'', 3600, ex_a2) = Inr st1"
    and "out st1 = out st0 @ spec_block (ex_opts True) ''mail.example.com.'' ex_a2 False (to_text x)"
    by blast
  with o [of x] l have "\<exists>st0 st1.
         run_loop (ex_opts True) ex_server init_state ?pre = Inr st0
       \<and> loop_body (ex_opts True) ex_server st0 (''mail.example.com.'', 3600, ex_a2) = Inr st1
       \<and> out st1 = out st0 @ spec_block (ex_opts True) ''mail.example.com.'' ex_a2 False ''10.0.0.1''"
    by auto
  with a show ?thesis by blast
qed

end
